theory Spec2Isabelle
  imports Complex_Main
begin

section \<open>The design-token configuration \<open>tailwind.config.js\<close>\<close>

text \<open>
  The source file is one object literal assigned to \<open>module.exports\<close>. A JavaScript
  object literal is modelled as an association list in the order of the source text
  (no key is written twice in any object of the file, so \<open>map_of\<close> is the property
  lookup), an array as a list, a string as a \<open>string\<close>. A numeric property name such
  as \<open>50\<close> is the property name \<open>''50''\<close>, as in JavaScript. JavaScript enumerates
  integer-like property names before the others; the properties below are stated on
  lookups, key sets and explicitly sorted lists, which do not depend on that order.
\<close>

subsection \<open>Data model\<close>

text \<open>A colour entry is either one colour string or a nested object of shades.\<close>

datatype color_token = ColorString string | ColorFamily "(string \<times> string) list"

text \<open>The second component of a font-size entry: the object \<open>{ lineHeight: ... }\<close>.\<close>

type_synonym font_size_entry = "string \<times> (string \<times> string) list"

text \<open>A CSS declaration object (property to value) and the object of utility classes.\<close>

type_synonym css_declaration = "(string \<times> string) list"

type_synonym utilities = "(string \<times> css_declaration) list"

record theme_extend =
  colors :: "(string \<times> color_token) list"
  fontFamily :: "(string \<times> string list) list"
  fontSize :: "(string \<times> font_size_entry) list"
  spacing :: "(string \<times> string) list"
  borderRadius :: "(string \<times> string) list"
  boxShadow :: "(string \<times> string) list"
  transitionDuration :: "(string \<times> string) list"
  transitionTimingFunction :: "(string \<times> string) list"
  zIndex :: "(string \<times> string) list"
  ringWidth :: "(string \<times> string) list"
  ringOffsetWidth :: "(string \<times> string) list"
  minWidth :: "(string \<times> string) list"
  minHeight :: "(string \<times> string) list"
  maxWidth :: "(string \<times> string) list"
  letterSpacing :: "(string \<times> string) list"

text \<open>
  The object under \<open>theme\<close> has the one property \<open>extend\<close>. The record package
  reserves that name for its own extension operation, so the field is \<open>extend'\<close>.
\<close>

record theme_object =
  extend' :: theme_extend

text \<open>
  The plugin is the only function of the file. It receives an object, reads its
  property \<open>addUtilities\<close> by destructuring and calls it. The property may be absent
  (\<open>None\<close>): calling \<open>undefined\<close> throws a \<open>TypeError\<close>. The registration function
  belongs to the host tool; it acts on the host's state, here the list of the utility
  objects registered so far, and may itself throw.
\<close>

datatype js_error = TypeError | HostError string

type_synonym registry = "utilities list"

type_synonym registration = "utilities \<Rightarrow> registry \<Rightarrow> js_error + registry"

record plugin_api =
  addUtilities :: "registration option"

type_synonym plugin = "plugin_api \<Rightarrow> registry \<Rightarrow> js_error + registry"

record config =
  content :: "string list"
  darkMode :: string
  theme :: theme_object
  plugins :: "plugin list"

subsection \<open>The configuration object\<close>

definition newUtilities :: utilities where
  "newUtilities =
    [(''.transition-base'', [(''transition'', ''all 250ms cubic-bezier(0.4, 0, 0.2, 1)'')]),
     (''.transition-fast'', [(''transition'', ''all 150ms cubic-bezier(0.4, 0, 0.2, 1)'')]),
     (''.transition-slow'', [(''transition'', ''all 350ms cubic-bezier(0.4, 0, 0.2, 1)'')])]"

definition plugin0 :: plugin where
  "plugin0 api s =
    (case addUtilities api of
       None \<Rightarrow> Inl TypeError
     | Some register \<Rightarrow> register newUtilities s)"

definition module_exports :: config where
  "module_exports = \<lparr>
    content =
      [''./pages/**/*.{html,js}'',
       ''./components/**/*.{html,js}'',
       ''./index.html'',
       ''./*.html''],
    darkMode = ''class'',
    theme = \<lparr>
      extend' = \<lparr>
        colors =
          [(''primary'', ColorFamily
             [(''DEFAULT'', ''#2563EB''),
              (''50'', ''#EFF6FF''),
              (''100'', ''#DBEAFE''),
              (''200'', ''#BFDBFE''),
              (''300'', ''#93C5FD''),
              (''400'', ''#60A5FA''),
              (''500'', ''#3B82F6''),
              (''600'', ''#2563EB''),
              (''700'', ''#1D4ED8''),
              (''800'', ''#1E40AF''),
              (''900'', ''#1E3A8A''),
              (''foreground'', ''#FFFFFF'')]),
           (''secondary'', ColorFamily
             [(''DEFAULT'', ''#64748B''),
              (''50'', ''#F8FAFC''),
              (''100'', ''#F1F5F9''),
              (''200'', ''#E2E8F0''),
              (''300'', ''#CBD5E1''),
              (''400'', ''#94A3B8''),
              (''500'', ''#64748B''),
              (''600'', ''#475569''),
              (''700'', ''#334155''),
              (''800'', ''#1E293B''),
              (''900'', ''#0F172A''),
              (''foreground'', ''#FFFFFF'')]),
           (''accent'', ColorFamily
             [(''DEFAULT'', ''#F59E0B''),
              (''50'', ''#FFFBEB''),
              (''100'', ''#FEF3C7''),
              (''200'', ''#FDE68A''),
              (''300'', ''#FCD34D''),
              (''400'', ''#FBBF24''),
              (''500'', ''#F59E0B''),
              (''600'', ''#D97706''),
              (''700'', ''#B45309''),
              (''800'', ''#92400E''),
              (''900'', ''#78350F''),
              (''foreground'', ''#1F2937'')]),
           (''background'', ColorFamily
             [(''DEFAULT'', ''#FAFAFA''),
              (''foreground'', ''#1F2937'')]),
           (''surface'', ColorFamily
             [(''DEFAULT'', ''#FFFFFF''),
              (''foreground'', ''#374151''),
              (''hover'', ''#F9FAFB''),
              (''active'', ''#F3F4F6'')]),
           (''text-primary'', ColorString ''#1F2937''),
           (''text-secondary'', ColorString ''#6B7280''),
           (''text-tertiary'', ColorString ''#9CA3AF''),
           (''text-disabled'', ColorString ''#D1D5DB''),
           (''success'', ColorFamily
             [(''DEFAULT'', ''#059669''),
              (''50'', ''#ECFDF5''),
              (''100'', ''#D1FAE5''),
              (''200'', ''#A7F3D0''),
              (''300'', ''#6EE7B7''),
              (''400'', ''#34D399''),
              (''500'', ''#10B981''),
              (''600'', ''#059669''),
              (''700'', ''#047857''),
              (''800'', ''#065F46''),
              (''900'', ''#064E3B''),
              (''foreground'', ''#FFFFFF'')]),
           (''warning'', ColorFamily
             [(''DEFAULT'', ''#D97706''),
              (''50'', ''#FFFBEB''),
              (''100'', ''#FEF3C7''),
              (''200'', ''#FDE68A''),
              (''300'', ''#FCD34D''),
              (''400'', ''#FBBF24''),
              (''500'', ''#F59E0B''),
              (''600'', ''#D97706''),
              (''700'', ''#B45309''),
              (''800'', ''#92400E''),
              (''900'', ''#78350F''),
              (''foreground'', ''#FFFFFF'')]),
           (''error'', ColorFamily
             [(''DEFAULT'', ''#DC2626''),
              (''50'', ''#FEF2F2''),
              (''100'', ''#FEE2E2''),
              (''200'', ''#FECACA''),
              (''300'', ''#FCA5A5''),
              (''400'', ''#F87171''),
              (''500'', ''#EF4444''),
              (''600'', ''#DC2626''),
              (''700'', ''#B91C1C''),
              (''800'', ''#991B1B''),
              (''900'', ''#7F1D1D''),
              (''foreground'', ''#FFFFFF'')]),
           (''border'', ColorFamily
             [(''DEFAULT'', ''rgba(0, 0, 0, 0.08)''),
              (''light'', ''rgba(0, 0, 0, 0.04)''),
              (''strong'', ''rgba(0, 0, 0, 0.12)'')])],
        fontFamily =
          [(''heading'', [''Inter'', ''sans-serif'']),
           (''body'', [''Source Sans Pro'', ''sans-serif'']),
           (''caption'', [''IBM Plex Sans'', ''sans-serif'']),
           (''mono'', [''JetBrains Mono'', ''monospace''])],
        fontSize =
          [(''xs'', (''0.875rem'', [(''lineHeight'', ''1.4'')])),
           (''sm'', (''0.9375rem'', [(''lineHeight'', ''1.6'')])),
           (''base'', (''1rem'', [(''lineHeight'', ''1.6'')])),
           (''lg'', (''1.125rem'', [(''lineHeight'', ''1.5'')])),
           (''xl'', (''1.25rem'', [(''lineHeight'', ''1.4'')])),
           (''2xl'', (''1.5rem'', [(''lineHeight'', ''1.3'')])),
           (''3xl'', (''1.875rem'', [(''lineHeight'', ''1.25'')])),
           (''4xl'', (''2.25rem'', [(''lineHeight'', ''1.2'')]))],
        spacing =
          [(''1'', ''0.5rem''),
           (''2'', ''1rem''),
           (''3'', ''1.5rem''),
           (''4'', ''2rem''),
           (''6'', ''3rem''),
           (''8'', ''4rem''),
           (''12'', ''6rem'')],
        borderRadius =
          [(''sm'', ''0.375rem''),
           (''base'', ''0.75rem''),
           (''md'', ''1.125rem''),
           (''lg'', ''1.5rem''),
           (''xl'', ''0.75rem'')],
        boxShadow =
          [(''sm'', ''0 2px 4px rgba(0, 0, 0, 0.08)''),
           (''base'', ''0 4px 8px rgba(0, 0, 0, 0.1)''),
           (''md'', ''0 6px 12px rgba(0, 0, 0, 0.12)''),
           (''lg'', ''0 12px 24px rgba(0, 0, 0, 0.15)''),
           (''xl'', ''0 20px 40px -8px rgba(0, 0, 0, 0.15)'')],
        transitionDuration =
          [(''250'', ''250ms''),
           (''350'', ''350ms'')],
        transitionTimingFunction =
          [(''out'', ''cubic-bezier(0.4, 0, 0.2, 1)'')],
        zIndex =
          [(''base'', ''0''),
           (''card'', ''1''),
           (''dropdown'', ''50''),
           (''navigation'', ''100''),
           (''modal'', ''200''),
           (''toast'', ''300'')],
        ringWidth = [(''3'', ''3px'')],
        ringOffsetWidth = [(''2'', ''2px'')],
        minWidth = [(''44'', ''44px'')],
        minHeight = [(''44'', ''44px'')],
        maxWidth = [(''measure'', ''70ch'')],
        letterSpacing = [(''caption'', ''0.025em'')]
      \<rparr>
    \<rparr>,
    plugins = [plugin0]
  \<rparr>"

text \<open>The object under \<open>theme.extend\<close>, which every token table is read from.\<close>

definition tokens :: theme_extend where
  "tokens = extend' (theme module_exports)"

subsection \<open>Reading the strings of the tables\<close>

text \<open>
  The values of the file are strings. What a claim says about a length, a number or a
  colour is said about what these readers make of the string; a string that does not
  have the expected form reads as \<open>None\<close> (or fails the test).
\<close>

definition is_digit :: "char \<Rightarrow> bool" where
  "is_digit c = (c \<in> set ''0123456789'')"

definition digit_value :: "char \<Rightarrow> nat" where
  "digit_value c = of_char c - of_char (CHR ''0'')"

text \<open>A non-empty string of decimal digits, read as a natural number.\<close>

definition parse_nat :: "string \<Rightarrow> nat option" where
  "parse_nat s =
    (if s \<noteq> [] \<and> list_all is_digit s
     then Some (foldl (\<lambda>n c. 10 * n + digit_value c) 0 s)
     else None)"

text \<open>The pieces of a string between the occurrences of a separator.\<close>

fun split_on :: "char \<Rightarrow> string \<Rightarrow> string list" where
  "split_on sep [] = [[]]"
| "split_on sep (c # cs) =
    (if c = sep then [] # split_on sep cs
     else (case split_on sep cs of
             [] \<Rightarrow> [[c]]
           | w # ws \<Rightarrow> (c # w) # ws))"

text \<open>A decimal numeral \<open>digits\<close> or \<open>digits.digits\<close>, read as a rational number.\<close>

definition parse_decimal :: "string \<Rightarrow> rat option" where
  "parse_decimal s =
    (case split_on (CHR ''.'') s of
       [i] \<Rightarrow> map_option of_nat (parse_nat i)
     | [i, f] \<Rightarrow>
        (case (parse_nat i, parse_nat f) of
           (Some a, Some b) \<Rightarrow> Some (of_nat a + of_nat b / 10 ^ length f)
         | _ \<Rightarrow> None)
     | _ \<Rightarrow> None)"

definition strip_prefix :: "string \<Rightarrow> string \<Rightarrow> string option" where
  "strip_prefix p s = (if take (length p) s = p then Some (drop (length p) s) else None)"

definition strip_suffix :: "string \<Rightarrow> string \<Rightarrow> string option" where
  "strip_suffix x s =
    (if length x \<le> length s \<and> drop (length s - length x) s = x
     then Some (take (length s - length x) s)
     else None)"

text \<open>A CSS length in the unit \<open>rem\<close>: a decimal numeral followed by \<open>rem\<close>.\<close>

definition rem_length :: "string \<Rightarrow> rat option" where
  "rem_length s = Option.bind (strip_suffix ''rem'' s) parse_decimal"

text \<open>A decimal integer with an optional minus sign, as \<open>parseInt\<close> reads a z-index.\<close>

definition parse_int :: "string \<Rightarrow> int option" where
  "parse_int s =
    (case s of
       [] \<Rightarrow> None
     | c # r \<Rightarrow>
        if c = CHR ''-'' then map_option (\<lambda>n. - int n) (parse_nat r)
        else map_option int (parse_nat s))"

text \<open>Both values were read, and the first is below the second.\<close>

definition both_less :: "'a::linorder option \<Rightarrow> 'a option \<Rightarrow> bool" where
  "both_less a b = (case (a, b) of (Some x, Some y) \<Rightarrow> x < y | _ \<Rightarrow> False)"

definition is_some :: "'a option \<Rightarrow> bool" where
  "is_some x = (case x of None \<Rightarrow> False | Some _ \<Rightarrow> True)"

subsection \<open>Scales read as numbers\<close>

definition z_layer :: "string \<Rightarrow> int option" where
  "z_layer k = Option.bind (map_of (zIndex tokens) k) parse_int"

definition radius :: "string \<Rightarrow> rat option" where
  "radius k = Option.bind (map_of (borderRadius tokens) k) rem_length"

definition spacing_length :: "string \<Rightarrow> rat option" where
  "spacing_length k = Option.bind (map_of (spacing tokens) k) rem_length"

text \<open>The spacing table with every key read as a number and every value as a length.\<close>

definition spacing_scale :: "(nat \<times> rat) list" where
  "spacing_scale =
    List.map_filter
      (\<lambda>(k, v). case (parse_nat k, rem_length v) of
                  (Some n, Some l) \<Rightarrow> Some (n, l)
                | _ \<Rightarrow> None)
      (spacing tokens)"

subsection \<open>Font families and font sizes\<close>

definition generic_families :: "string list" where
  "generic_families = [''sans-serif'', ''monospace'']"

definition ends_in_generic_family :: "string list \<Rightarrow> bool" where
  "ends_in_generic_family fonts =
    (case rev fonts of [] \<Rightarrow> False | g # _ \<Rightarrow> g \<in> set generic_families)"

text \<open>
  A font-size entry \<open>[size, { lineHeight }]\<close> is well formed when the size is a length
  in \<open>rem\<close> and the options hold a \<open>lineHeight\<close> that is a bare decimal numeral.
\<close>

definition line_height :: "font_size_entry \<Rightarrow> rat option" where
  "line_height e = Option.bind (map_of (snd e) ''lineHeight'') parse_decimal"

definition valid_font_size_entry :: "font_size_entry \<Rightarrow> bool" where
  "valid_font_size_entry e = (is_some (rem_length (fst e)) \<and> is_some (line_height e))"

subsection \<open>Transition utilities and the duration scale\<close>

text \<open>A duration in milliseconds: a decimal numeral followed by \<open>ms\<close>.\<close>

definition ms_duration :: "string \<Rightarrow> rat option" where
  "ms_duration t = Option.bind (strip_suffix ''ms'' t) parse_decimal"

text \<open>The millisecond durations among the space-separated parts of a CSS value.\<close>

definition ms_durations :: "string \<Rightarrow> rat list" where
  "ms_durations v = List.map_filter ms_duration (split_on (CHR '' '') v)"

definition declared_durations :: "rat list" where
  "declared_durations =
    List.map_filter (\<lambda>(k, v). ms_duration v) (transitionDuration tokens)"

definition one_transition_declaration :: "css_declaration \<Rightarrow> bool" where
  "one_transition_declaration d = (map fst d = [''transition''])"

definition utility_durations :: "css_declaration \<Rightarrow> rat list" where
  "utility_durations d =
    (case map_of d ''transition'' of None \<Rightarrow> [] | Some v \<Rightarrow> ms_durations v)"

definition duration_declared :: "css_declaration \<Rightarrow> bool" where
  "duration_declared d =
    (case utility_durations d of [t] \<Rightarrow> t \<in> set declared_durations | _ \<Rightarrow> False)"

text \<open>
  A registration function that only records its argument: the host state after a run
  of the plugin is then the list of the calls the plugin made.
\<close>

definition record_call :: registration where
  "record_call u calls = Inr (calls @ [u])"

subsection \<open>Colour families\<close>

definition shade_keys :: "string list" where
  "shade_keys =
    [''DEFAULT'', ''50'', ''100'', ''200'', ''300'', ''400'', ''500'', ''600'', ''700'',
     ''800'', ''900'', ''foreground'']"

text \<open>The entries of \<open>colors\<close> whose value is a nested object.\<close>

definition color_families :: "(string \<times> (string \<times> string) list) list" where
  "color_families =
    List.map_filter
      (\<lambda>(name, t). case t of ColorFamily f \<Rightarrow> Some (name, f) | ColorString _ \<Rightarrow> None)
      (colors tokens)"

definition has_shade_keys :: "(string \<times> string) list \<Rightarrow> bool" where
  "has_shade_keys f = (set (map fst f) = set shade_keys)"

text \<open>
  The colour notations the file uses: a hash sign with 3, 4, 6 or 8 hexadecimal digits,
  and \<open>rgba(\<close>four comma-separated numbers\<open>)\<close>. Both are CSS colour syntax; CSS has
  more notations, which this test does not accept.
\<close>

definition is_hex_digit :: "char \<Rightarrow> bool" where
  "is_hex_digit c = (c \<in> set ''0123456789abcdefABCDEF'')"

definition is_hex_color :: "string \<Rightarrow> bool" where
  "is_hex_color s =
    (case s of
       [] \<Rightarrow> False
     | c # ds \<Rightarrow> c = CHR ''#'' \<and> length ds \<in> {3, 4, 6, 8} \<and> list_all is_hex_digit ds)"

definition trim :: "string \<Rightarrow> string" where
  "trim s = rev (dropWhile (\<lambda>c. c = CHR '' '') (rev (dropWhile (\<lambda>c. c = CHR '' '') s)))"

definition is_rgba_color :: "string \<Rightarrow> bool" where
  "is_rgba_color s =
    (case strip_prefix ''rgba('' s of
       None \<Rightarrow> False
     | Some r \<Rightarrow>
        (case strip_suffix '')'' r of
           None \<Rightarrow> False
         | Some body \<Rightarrow>
            (let parts = map trim (split_on (CHR '','') body)
             in length parts = 4 \<and> list_all (\<lambda>p. is_some (parse_decimal p)) parts)))"

definition valid_css_color :: "string \<Rightarrow> bool" where
  "valid_css_color s = (is_hex_color s \<or> is_rgba_color s)"

subsection \<open>Glob patterns\<close>

text \<open>
  The file only lists the patterns; matching them against files is the host tool's
  work. To say that a pattern matches a path, the usual reading of the four pattern
  forms the file uses is written out: a character stands for itself, \<open>*\<close> for any run
  of characters inside one path segment, a segment \<open>**\<close> for any number of segments,
  and \<open>{a,b}\<close> for either alternative. A segment \<open>.\<close> is the current directory.
\<close>

fun seg_match :: "string \<Rightarrow> string \<Rightarrow> bool" where
  "seg_match [] s = (s = [])"
| "seg_match (p # ps) s =
    (if p = CHR ''*''
     then seg_match ps s \<or> (case s of [] \<Rightarrow> False | _ # cs \<Rightarrow> seg_match (p # ps) cs)
     else (case s of [] \<Rightarrow> False | c # cs \<Rightarrow> c = p \<and> seg_match ps cs))"

fun segs_match :: "string list \<Rightarrow> string list \<Rightarrow> bool" where
  "segs_match [] ss = (ss = [])"
| "segs_match (p # ps) ss =
    (if p = ''**''
     then segs_match ps ss \<or> (case ss of [] \<Rightarrow> False | _ # ss' \<Rightarrow> segs_match (p # ps) ss')
     else (case ss of [] \<Rightarrow> False | s # ss' \<Rightarrow> seg_match p s \<and> segs_match ps ss'))"

text \<open>
  Every choice of alternatives for the brace groups of a pattern, left to right. A
  brace that is never closed stands for itself.
\<close>

function brace_expand :: "string \<Rightarrow> string list" where
  "brace_expand s =
    (case dropWhile (\<lambda>c. c \<noteq> CHR ''{'') s of
       [] \<Rightarrow> [s]
     | _ # inner \<Rightarrow>
        (case dropWhile (\<lambda>c. c \<noteq> CHR ''}'') inner of
           [] \<Rightarrow> [s]
         | _ # after \<Rightarrow>
            concat
              (map (\<lambda>a. map (\<lambda>r. takeWhile (\<lambda>c. c \<noteq> CHR ''{'') s @ a @ r)
                            (brace_expand after))
                   (split_on (CHR '','') (takeWhile (\<lambda>c. c \<noteq> CHR ''}'') inner)))))"
  by pat_completeness auto
termination
proof (relation "measure length")
  show "wf (measure length)" by simp
next
  fix s inner after :: string and b1 b2 :: char
  assume opened: "dropWhile (\<lambda>c. c \<noteq> CHR ''{'') s = b1 # inner"
    and closed: "dropWhile (\<lambda>c. c \<noteq> CHR ''}'') inner = b2 # after"
  have "length (b1 # inner) \<le> length s"
    using length_dropWhile_le [of "\<lambda>c. c \<noteq> CHR ''{''" s] opened by simp
  moreover have "length (b2 # after) \<le> length inner"
    using length_dropWhile_le [of "\<lambda>c. c \<noteq> CHR ''}''" inner] closed by simp
  ultimately show "(after, s) \<in> measure length" by simp
qed

definition path_segments :: "string \<Rightarrow> string list" where
  "path_segments s = filter (\<lambda>seg. seg \<noteq> ''.'') (split_on (CHR ''/'') s)"

definition glob_matches :: "string \<Rightarrow> string \<Rightarrow> bool" where
  "glob_matches pattern path =
    list_ex (\<lambda>p. segs_match (path_segments p) (path_segments path)) (brace_expand pattern)"

section \<open>Properties of the configuration\<close>

subsection \<open>The tables, read off the configuration object\<close>

lemmas readers =
  parse_nat_def parse_int_def is_digit_def digit_value_def parse_decimal_def
  strip_suffix_def strip_prefix_def rem_length_def ms_duration_def is_some_def

lemma content_exports:
  "content module_exports =
    [''./pages/**/*.{html,js}'', ''./components/**/*.{html,js}'', ''./index.html'',
     ''./*.html'']"
  by (simp add: module_exports_def)

lemma fontFamily_tokens:
  "fontFamily tokens =
    [(''heading'', [''Inter'', ''sans-serif'']),
     (''body'', [''Source Sans Pro'', ''sans-serif'']),
     (''caption'', [''IBM Plex Sans'', ''sans-serif'']),
     (''mono'', [''JetBrains Mono'', ''monospace''])]"
  by (simp add: tokens_def module_exports_def)

lemma spacing_tokens:
  "spacing tokens =
    [(''1'', ''0.5rem''), (''2'', ''1rem''), (''3'', ''1.5rem''), (''4'', ''2rem''),
     (''6'', ''3rem''), (''8'', ''4rem''), (''12'', ''6rem'')]"
  by (simp add: tokens_def module_exports_def)

lemma borderRadius_tokens:
  "borderRadius tokens =
    [(''sm'', ''0.375rem''), (''base'', ''0.75rem''), (''md'', ''1.125rem''),
     (''lg'', ''1.5rem''), (''xl'', ''0.75rem'')]"
  by (simp add: tokens_def module_exports_def)

lemma transitionDuration_tokens:
  "transitionDuration tokens = [(''250'', ''250ms''), (''350'', ''350ms'')]"
  by (simp add: tokens_def module_exports_def)

lemma zIndex_tokens:
  "zIndex tokens =
    [(''base'', ''0''), (''card'', ''1''), (''dropdown'', ''50''), (''navigation'', ''100''),
     (''modal'', ''200''), (''toast'', ''300'')]"
  by (simp add: tokens_def module_exports_def)

subsection \<open>Transition utilities\<close>

lemma declared_durations_eq: "declared_durations = [250, 350]"
  by (simp add: declared_durations_def transitionDuration_tokens readers)

lemma ms_durations_base: "ms_durations ''all 250ms cubic-bezier(0.4, 0, 0.2, 1)'' = [250]"
  by (simp add: ms_durations_def readers)

lemma ms_durations_fast: "ms_durations ''all 150ms cubic-bezier(0.4, 0, 0.2, 1)'' = [150]"
  by (simp add: ms_durations_def readers)

lemma ms_durations_slow: "ms_durations ''all 350ms cubic-bezier(0.4, 0, 0.2, 1)'' = [350]"
  by (simp add: ms_durations_def readers)

text \<open>
  C1, as stated, fails: the declaration of \<open>.transition-fast\<close> holds the duration
  150ms, and the \<open>transitionDuration\<close> table of the file declares 250ms and 350ms only.
\<close>

theorem transition_fast_duration_not_declared:
  "map_of newUtilities ''.transition-fast''
     = Some [(''transition'', ''all 150ms cubic-bezier(0.4, 0, 0.2, 1)'')]
   \<and> utility_durations [(''transition'', ''all 150ms cubic-bezier(0.4, 0, 0.2, 1)'')] = [150]
   \<and> map snd (transitionDuration tokens) = [''250ms'', ''350ms'']
   \<and> \<not> duration_declared [(''transition'', ''all 150ms cubic-bezier(0.4, 0, 0.2, 1)'')]"
  by (simp add: newUtilities_def utility_durations_def duration_declared_def
      ms_durations_fast declared_durations_eq transitionDuration_tokens)

text \<open>
  C1, amended: each of the three utility classes has exactly one declaration, for the
  property \<open>transition\<close>, holding exactly one millisecond duration (250, 150 and 350 for
  base, fast and slow). The durations of \<open>.transition-base\<close> and \<open>.transition-slow\<close> are
  members of the declared \<open>transitionDuration\<close> scale (250ms, 350ms); the 150ms of
  \<open>.transition-fast\<close> is not declared there.
\<close>

theorem transition_utilities_durations:
  "map fst newUtilities = [''.transition-base'', ''.transition-fast'', ''.transition-slow'']
   \<and> list_all (\<lambda>(cls, d). one_transition_declaration d) newUtilities
   \<and> map (\<lambda>(cls, d). utility_durations d) newUtilities = [[250], [150], [350]]
   \<and> declared_durations = [250, 350]
   \<and> map (\<lambda>(cls, d). duration_declared d) newUtilities = [True, False, True]"
  by (simp add: newUtilities_def one_transition_declaration_def utility_durations_def
      duration_declared_def ms_durations_base ms_durations_fast ms_durations_slow
      declared_durations_eq)

subsection \<open>The plugin hook\<close>

text \<open>
  C3: the configuration has one plugin. Run with a registration function and a host
  state, it does what one call of that function on \<open>newUtilities\<close> does; with the
  recording function and no earlier calls, the calls made are the one call with
  \<open>newUtilities\<close>. The keys of \<open>newUtilities\<close> are exactly \<open>.transition-base\<close>,
  \<open>.transition-fast\<close> and \<open>.transition-slow\<close>, each written once and each mapped to a
  non-empty declaration object.
\<close>

theorem plugin_registers_utilities_once:
  "plugins module_exports = [plugin0]
   \<and> plugin0 \<lparr>addUtilities = Some register\<rparr> s = register newUtilities s
   \<and> plugin0 \<lparr>addUtilities = Some record_call\<rparr> [] = Inr [newUtilities]
   \<and> set (map fst newUtilities)
        = {''.transition-base'', ''.transition-fast'', ''.transition-slow''}
   \<and> distinct (map fst newUtilities)
   \<and> list_all (\<lambda>(cls, d). d \<noteq> [] \<and> distinct (map fst d)) newUtilities"
proof -
  have hook: "plugins module_exports = [plugin0]"
    by (simp add: module_exports_def)
  have once: "plugin0 \<lparr>addUtilities = Some f\<rparr> t = f newUtilities t" for f t
    by (simp add: plugin0_def)
  have logged: "plugin0 \<lparr>addUtilities = Some record_call\<rparr> [] = Inr [newUtilities]"
    by (simp add: once record_call_def)
  have keys:
    "map fst newUtilities = [''.transition-base'', ''.transition-fast'', ''.transition-slow'']"
    by (simp add: newUtilities_def)
  have decls: "list_all (\<lambda>(cls, d). d \<noteq> [] \<and> distinct (map fst d)) newUtilities"
    by (simp add: newUtilities_def)
  from keys have
    "set (map fst newUtilities)
       = {''.transition-base'', ''.transition-fast'', ''.transition-slow''}"
    and "distinct (map fst newUtilities)"
    by simp_all
  with hook once logged decls show ?thesis by simp
qed

subsection \<open>Colour families\<close>

text \<open>
  C2, as stated, fails: the family \<open>surface\<close> has the keys \<open>DEFAULT\<close>, \<open>foreground\<close>,
  \<open>hover\<close> and \<open>active\<close>, which is not the set of shade keys.
\<close>

theorem surface_family_keys_differ:
  "map_of color_families ''surface''
     = Some [(''DEFAULT'', ''#FFFFFF''), (''foreground'', ''#374151''),
             (''hover'', ''#F9FAFB''), (''active'', ''#F3F4F6'')]
   \<and> \<not> has_shade_keys [(''DEFAULT'', ''#FFFFFF''), (''foreground'', ''#374151''),
                         (''hover'', ''#F9FAFB''), (''active'', ''#F3F4F6'')]"
proof
  show "map_of color_families ''surface''
     = Some [(''DEFAULT'', ''#FFFFFF''), (''foreground'', ''#374151''),
             (''hover'', ''#F9FAFB''), (''active'', ''#F3F4F6'')]"
    by (simp add: color_families_def tokens_def module_exports_def)
next
  have "''50'' \<in> set shade_keys"
    by (simp add: shade_keys_def)
  moreover have
    "''50'' \<notin> set (map fst [(''DEFAULT'', ''#FFFFFF''), (''foreground'', ''#374151''),
                             (''hover'', ''#F9FAFB''), (''active'', ''#F3F4F6'')])"
    by simp
  ultimately show
    "\<not> has_shade_keys [(''DEFAULT'', ''#FFFFFF''), (''foreground'', ''#374151''),
                       (''hover'', ''#F9FAFB''), (''active'', ''#F3F4F6'')]"
    unfolding has_shade_keys_def by metis
qed

text \<open>
  C2, amended: the colour families are \<open>primary\<close>, \<open>secondary\<close>, \<open>accent\<close>,
  \<open>background\<close>, \<open>surface\<close>, \<open>success\<close>, \<open>warning\<close>, \<open>error\<close> and \<open>border\<close>. The key set
  is exactly the shade keys (DEFAULT, 50, 100, ..., 900, foreground) for \<open>primary\<close>,
  \<open>secondary\<close>, \<open>accent\<close>, \<open>success\<close>, \<open>warning\<close> and \<open>error\<close>; \<open>background\<close> has
  DEFAULT and foreground, \<open>surface\<close> has DEFAULT, foreground, hover and active, and
  \<open>border\<close> has DEFAULT, light and strong. Every family has the key DEFAULT, and every
  value of every family is a syntactically valid CSS colour.
\<close>

theorem color_families_keys_and_values:
  "map fst color_families =
      [''primary'', ''secondary'', ''accent'', ''background'', ''surface'', ''success'',
       ''warning'', ''error'', ''border'']
   \<and> map fst (filter (\<lambda>(name, f). has_shade_keys f) color_families) =
      [''primary'', ''secondary'', ''accent'', ''success'', ''warning'', ''error'']
   \<and> map (\<lambda>(name, f). (name, map fst f))
        (filter (\<lambda>(name, f). \<not> has_shade_keys f) color_families) =
      [(''background'', [''DEFAULT'', ''foreground'']),
       (''surface'', [''DEFAULT'', ''foreground'', ''hover'', ''active'']),
       (''border'', [''DEFAULT'', ''light'', ''strong''])]
   \<and> list_all (\<lambda>(name, f). ''DEFAULT'' \<in> set (map fst f)) color_families
   \<and> list_all (\<lambda>(name, f). list_all (\<lambda>(k, v). valid_css_color v) f) color_families"
  by code_simp

subsection \<open>Glob patterns\<close>

text \<open>
  C5: \<open>content\<close> is the list of the four patterns \<open>./pages/**/*.{html,js}\<close>,
  \<open>./components/**/*.{html,js}\<close>, \<open>./index.html\<close> and \<open>./*.html\<close>; each is a non-empty
  string that starts with \<open>./\<close>; and a pattern of the list matches the root file
  \<open>index.html\<close> (the last two do, the first two do not).
\<close>

theorem content_glob_patterns:
  "content module_exports =
      [''./pages/**/*.{html,js}'', ''./components/**/*.{html,js}'', ''./index.html'',
       ''./*.html'']
   \<and> list_all (\<lambda>p. p \<noteq> [] \<and> is_some (strip_prefix ''./'' p)) (content module_exports)
   \<and> list_ex (\<lambda>p. glob_matches p ''index.html'') (content module_exports)
   \<and> filter (\<lambda>p. glob_matches p ''index.html'') (content module_exports) =
      [''./index.html'', ''./*.html'']"
  by code_simp

subsection \<open>Typography\<close>

text \<open>
  C7: every entry of \<open>fontSize\<close> is a pair of a size and an options object; the size
  is a decimal numeral followed by \<open>rem\<close>, and the options hold a \<open>lineHeight\<close> that is
  a decimal numeral with no unit. The sizes and ratios read are listed.
\<close>

theorem font_size_entries_well_formed:
  "list_all (\<lambda>(name, e). valid_font_size_entry e) (fontSize tokens)
   \<and> map (\<lambda>(name, e). (rem_length (fst e), line_height e)) (fontSize tokens) =
      [(Some (7 / 8), Some (7 / 5)), (Some (15 / 16), Some (8 / 5)), (Some 1, Some (8 / 5)),
       (Some (9 / 8), Some (3 / 2)), (Some (5 / 4), Some (7 / 5)),
       (Some (3 / 2), Some (13 / 10)), (Some (15 / 8), Some (5 / 4)),
       (Some (9 / 4), Some (6 / 5))]"
  by (simp add: tokens_def module_exports_def valid_font_size_entry_def line_height_def
      readers)

text \<open>
  C8: \<open>darkMode\<close> is the string \<open>class\<close>, not \<open>media\<close>; and every entry of
  \<open>fontFamily\<close> is a non-empty list whose last element is \<open>sans-serif\<close> or
  \<open>monospace\<close>.
\<close>

theorem dark_mode_class_and_generic_fallbacks:
  "darkMode module_exports = ''class''
   \<and> darkMode module_exports \<noteq> ''media''
   \<and> map fst (fontFamily tokens) = [''heading'', ''body'', ''caption'', ''mono'']
   \<and> list_all (\<lambda>(role, fonts). fonts \<noteq> [] \<and> ends_in_generic_family fonts)
        (fontFamily tokens)"
proof -
  have "darkMode module_exports = ''class''"
    by (simp add: module_exports_def)
  moreover have
    "list_all (\<lambda>(role, fonts). fonts \<noteq> [] \<and> ends_in_generic_family fonts)
       (fontFamily tokens)"
    unfolding fontFamily_tokens
    by (simp add: ends_in_generic_family_def generic_families_def)
  ultimately show ?thesis
    by (simp add: fontFamily_tokens)
qed

subsection \<open>Numeric scales\<close>

lemma spacing_scale_eq:
  "spacing_scale = [(1, 1 / 2), (2, 1), (3, 3 / 2), (4, 2), (6, 3), (8, 4), (12, 6)]"
  by (simp add: spacing_scale_def spacing_tokens readers)

lemma spacing_length_cases:
  assumes "spacing_length k = Some l"
  shows "(k, l) \<in> {(''1'', 1 / 2), (''2'', 1), (''3'', 3 / 2), (''4'', 2), (''6'', 3),
                    (''8'', 4), (''12'', 6)}"
  using assms
  by (auto simp add: spacing_length_def spacing_tokens readers split: if_splits)

lemma spacing_key_numbers:
  "parse_nat ''1'' = Some 1" "parse_nat ''2'' = Some 2" "parse_nat ''3'' = Some 3"
  "parse_nat ''4'' = Some 4" "parse_nat ''6'' = Some 6" "parse_nat ''8'' = Some 8"
  "parse_nat ''12'' = Some 12"
  by (simp_all add: readers)

text \<open>
  C4: every key of \<open>spacing\<close> reads as a number and every value as a length in
  \<open>rem\<close>; sorted by the numeric key, the lengths are strictly increasing; and for any
  two keys \<open>k1\<close>, \<open>k2\<close> of the table with \<open>k1 < k2\<close> as numbers, the length at \<open>k1\<close>
  is below the length at \<open>k2\<close>.
\<close>

theorem spacing_strictly_increasing:
  "list_all (\<lambda>(k, v). is_some (parse_nat k) \<and> is_some (rem_length v)) (spacing tokens)
   \<and> length spacing_scale = length (spacing tokens)
   \<and> sorted_wrt (<) (map snd (sort_key fst spacing_scale))
   \<and> (\<forall>k1 k2 n1 n2 l1 l2.
        parse_nat k1 = Some n1 \<and> parse_nat k2 = Some n2
        \<and> spacing_length k1 = Some l1 \<and> spacing_length k2 = Some l2 \<and> n1 < n2
        \<longrightarrow> l1 < l2)"
proof (intro conjI allI impI)
  show "list_all (\<lambda>(k, v). is_some (parse_nat k) \<and> is_some (rem_length v)) (spacing tokens)"
    by (simp add: spacing_tokens readers)
  show "length spacing_scale = length (spacing tokens)"
    by (simp add: spacing_scale_eq spacing_tokens)
  show "sorted_wrt (<) (map snd (sort_key fst spacing_scale))"
    by (simp add: spacing_scale_eq)
next
  fix k1 k2 :: string and n1 n2 :: nat and l1 l2 :: rat
  assume h: "parse_nat k1 = Some n1 \<and> parse_nat k2 = Some n2
    \<and> spacing_length k1 = Some l1 \<and> spacing_length k2 = Some l2 \<and> n1 < n2"
  from h have e1: "(k1, l1) \<in> {(''1'', 1 / 2), (''2'', 1), (''3'', 3 / 2), (''4'', 2),
      (''6'', 3), (''8'', 4), (''12'', 6)}"
    by (simp only: spacing_length_cases)
  from h have e2: "(k2, l2) \<in> {(''1'', 1 / 2), (''2'', 1), (''3'', 3 / 2), (''4'', 2),
      (''6'', 3), (''8'', 4), (''12'', 6)}"
    by (simp only: spacing_length_cases)
  from h have n: "parse_nat k1 = Some n1" "parse_nat k2 = Some n2" "n1 < n2"
    by simp_all
  from e1 e2 n show "l1 < l2"
    by (auto simp add: spacing_key_numbers)
qed

theorem spacing_strictly_increasing_witness:
  "parse_nat ''4'' = Some 4 \<and> parse_nat ''12'' = Some 12
   \<and> spacing_length ''4'' = Some 2 \<and> spacing_length ''12'' = Some 6
   \<and> (4::nat) < 12 \<and> (2::rat) < 6"
proof -
  have keys: "parse_nat ''4'' = Some 4" "parse_nat ''12'' = Some 12"
    by (simp_all add: readers)
  have lens: "spacing_length ''4'' = Some 2" "spacing_length ''12'' = Some 6"
    by (simp_all add: spacing_length_def spacing_tokens readers)
  have "(4::nat) < 12" by simp
  with spacing_strictly_increasing keys lens have "(2::rat) < 6"
    by blast
  with keys lens show ?thesis by simp
qed

text \<open>
  C9: read as integers, the z-index layers are base 0, card 1, dropdown 50,
  navigation 100, modal 200 and toast 300, each strictly below the next; these are all
  the layers, and no two of them have the same value.
\<close>

theorem z_index_layers_strictly_ordered:
  "map fst (zIndex tokens)
     = [''base'', ''card'', ''dropdown'', ''navigation'', ''modal'', ''toast'']
   \<and> map z_layer [''base'', ''card'', ''dropdown'', ''navigation'', ''modal'', ''toast'']
     = [Some 0, Some 1, Some 50, Some 100, Some 200, Some 300]
   \<and> sorted_wrt both_less
       (map z_layer [''base'', ''card'', ''dropdown'', ''navigation'', ''modal'', ''toast''])
   \<and> distinct (map snd (zIndex tokens))"
  by (simp add: z_layer_def zIndex_tokens both_less_def readers)

text \<open>
  C10: \<open>borderRadius.xl\<close> and \<open>borderRadius.base\<close> are both \<open>0.75rem\<close>, so the table
  is not injective; as lengths, \<open>xl\<close> is below \<open>md\<close> and below \<open>lg\<close>, so the lengths in
  the order sm, base, md, lg, xl are not increasing.
\<close>

theorem border_radius_xl_equals_base:
  "map_of (borderRadius tokens) ''xl'' = Some ''0.75rem''
   \<and> map_of (borderRadius tokens) ''base'' = Some ''0.75rem''
   \<and> \<not> distinct (map snd (borderRadius tokens))
   \<and> map radius [''sm'', ''base'', ''md'', ''lg'', ''xl'']
     = [Some (3 / 8), Some (3 / 4), Some (9 / 8), Some (3 / 2), Some (3 / 4)]
   \<and> both_less (radius ''xl'') (radius ''md'')
   \<and> both_less (radius ''xl'') (radius ''lg'')
   \<and> \<not> sorted_wrt both_less (map radius [''sm'', ''base'', ''md'', ''lg'', ''xl''])"
proof -
  have radii:
    "map radius [''sm'', ''base'', ''md'', ''lg'', ''xl'']
       = [Some (3 / 8), Some (3 / 4), Some (9 / 8), Some (3 / 2), Some (3 / 4)]"
    by (simp add: radius_def borderRadius_tokens readers)
  then have xl: "radius ''xl'' = Some (3 / 4)"
    and md: "radius ''md'' = Some (9 / 8)"
    and lg: "radius ''lg'' = Some (3 / 2)"
    by simp_all
  have below: "both_less (radius ''xl'') (radius ''md'')"
    "both_less (radius ''xl'') (radius ''lg'')"
    by (simp_all add: xl md lg both_less_def)
  have "\<not> both_less (radius ''lg'') (radius ''xl'')"
    by (simp add: xl lg both_less_def)
  then have "\<not> sorted_wrt both_less (map radius [''sm'', ''base'', ''md'', ''lg'', ''xl''])"
    by simp
  with radii below show ?thesis
    by (simp add: borderRadius_tokens)
qed

end
